theory Spec2Isabelle
  imports Complex_Main "HOL-Library.Sublist"
begin

section \<open>JavaScript numbers and the two string-to-number conversions\<close>

text \<open>
  The page script \<^verbatim>\<open>staticfiles/js/main.22dad8aa4d0e.js\<close> reads the quantity field as
  a string and converts it in two different ways: \<^verbatim>\<open>parseFloat(oldValue)\<close> for the
  arithmetic and the implicit \<^verbatim>\<open>ToNumber\<close> of \<^verbatim>\<open>oldValue > 0\<close> for the guard.
  Both conversions are modelled here as the language defines them.

  A number is \<open>NaN\<close>, an infinity, or a finite value. Finite values are exact rationals:
  the rounding of binary doubles and the sign of zero are outside this model. Strings are
  lists of 8-bit code units.
\<close>

datatype jsnum = NaN | Fin rat | PInf | NInf

text \<open>Addition of finite values is exact here; the language rounds the sum to a double.\<close>

fun js_add :: "jsnum \<Rightarrow> jsnum \<Rightarrow> jsnum" where
  "js_add NaN _ = NaN"
| "js_add _ NaN = NaN"
| "js_add PInf NInf = NaN"
| "js_add NInf PInf = NaN"
| "js_add PInf _ = PInf"
| "js_add _ PInf = PInf"
| "js_add NInf _ = NInf"
| "js_add _ NInf = NInf"
| "js_add (Fin a) (Fin b) = Fin (a + b)"

fun js_neg :: "jsnum \<Rightarrow> jsnum" where
  "js_neg NaN = NaN"
| "js_neg (Fin a) = Fin (- a)"
| "js_neg PInf = NInf"
| "js_neg NInf = PInf"

definition js_sub :: "jsnum \<Rightarrow> jsnum \<Rightarrow> jsnum" where
  "js_sub x y = js_add x (js_neg y)"

text \<open>The relational operators answer \<open>False\<close> whenever an operand is \<open>NaN\<close>.\<close>

fun js_lt :: "jsnum \<Rightarrow> jsnum \<Rightarrow> bool" where
  "js_lt NaN _ = False"
| "js_lt _ NaN = False"
| "js_lt PInf _ = False"
| "js_lt _ NInf = False"
| "js_lt NInf _ = True"
| "js_lt _ PInf = True"
| "js_lt (Fin a) (Fin b) = (a < b)"

definition js_gt :: "jsnum \<Rightarrow> jsnum \<Rightarrow> bool" where
  "js_gt x y = js_lt y x"

definition js_ge_zero :: "jsnum \<Rightarrow> bool" where
  \<comment> \<open>\<^verbatim>\<open>x >= 0\<close>\<close>
  "js_ge_zero x = (js_lt (Fin 0) x \<or> x = Fin 0)"

definition isWhiteSpace :: "char \<Rightarrow> bool" where
  \<comment> \<open>TAB, LF, VT, FF, CR, SP and NBSP: the white space and line terminators below 256\<close>
  "isWhiteSpace c =
     (c \<in> set [CHR 0x09, CHR 0x0A, CHR 0x0B, CHR 0x0C, CHR 0x0D, CHR 0x20, CHR 0xA0])"

definition isDigit :: "char \<Rightarrow> bool" where
  "isDigit c = (c \<in> set ''0123456789'')"

definition index_of :: "char \<Rightarrow> string \<Rightarrow> nat" where
  "index_of c cs = length (takeWhile (\<lambda>d. d \<noteq> c) cs)"

definition decimalValue :: "string \<Rightarrow> nat" where
  "decimalValue ds = foldl (\<lambda>a c. 10 * a + index_of c ''0123456789'') 0 ds"

definition scale10 :: "rat \<Rightarrow> int \<Rightarrow> rat" where
  "scale10 m e = (if 0 \<le> e then m * 10 ^ nat e else m / 10 ^ nat (- e))"

text \<open>
  \<open>ExponentPart\<close>: \<^verbatim>\<open>e\<close> or \<^verbatim>\<open>E\<close>, an optional sign, at least one digit. The result is
  the exponent and the text after it.
\<close>

definition scanExponentPart :: "string \<Rightarrow> (int \<times> string) option" where
  "scanExponentPart s =
     (case s of
        [] \<Rightarrow> None
      | c # t \<Rightarrow>
          if c = CHR ''e'' \<or> c = CHR ''E'' then
            (let neg = (t \<noteq> [] \<and> hd t = CHR ''-'');
                 u = (if t \<noteq> [] \<and> (hd t = CHR ''-'' \<or> hd t = CHR ''+'') then tl t else t);
                 ds = takeWhile isDigit u
             in if ds = [] then None
                else Some (if neg then - int (decimalValue ds) else int (decimalValue ds),
                           dropWhile isDigit u))
          else None)"

text \<open>
  The value of a literal is its exact decimal value. The language rounds it to the nearest
  double (and to an infinity or to zero far outside the range of doubles); the
  properties below are evaluated only at texts whose values and results are doubles
  exactly, or do not depend on the value at all.
\<close>

definition withExponent :: "string \<Rightarrow> string \<Rightarrow> string \<Rightarrow> jsnum \<times> string" where
  "withExponent ip fp rest =
     (let m = of_nat (decimalValue (ip @ fp)) / 10 ^ length fp
      in case scanExponentPart rest of
           None \<Rightarrow> (Fin m, rest)
         | Some (e, rest') \<Rightarrow> (Fin (scale10 m e), rest'))"

text \<open>
  The longest prefix that is a \<open>StrUnsignedDecimalLiteral\<close>: \<^verbatim>\<open>Infinity\<close>, or digits
  with an optional fraction and exponent, or a dot followed by digits. The result is
  the value of that prefix and the text after it; \<open>None\<close> when no prefix is a literal.
\<close>

definition scanStrUnsignedDecimalLiteral :: "string \<Rightarrow> (jsnum \<times> string) option" where
  "scanStrUnsignedDecimalLiteral s =
     (if prefix ''Infinity'' s then Some (PInf, drop 8 s)
      else
        let ip = takeWhile isDigit s; r1 = dropWhile isDigit s
        in case r1 of
             [] \<Rightarrow> if ip = [] then None else Some (withExponent ip [] r1)
           | c # t \<Rightarrow>
               if c = CHR ''.'' then
                 (let fp = takeWhile isDigit t; r2 = dropWhile isDigit t
                  in if ip = [] \<and> fp = [] then None else Some (withExponent ip fp r2))
               else if ip = [] then None else Some (withExponent ip [] r1))"

definition scanStrDecimalLiteral :: "string \<Rightarrow> (jsnum \<times> string) option" where
  "scanStrDecimalLiteral s =
     (case s of
        [] \<Rightarrow> None
      | c # t \<Rightarrow>
          if c = CHR ''+'' then scanStrUnsignedDecimalLiteral t
          else if c = CHR ''-'' then
            (case scanStrUnsignedDecimalLiteral t of
               None \<Rightarrow> None
             | Some (v, r) \<Rightarrow> Some (js_neg v, r))
          else scanStrUnsignedDecimalLiteral s)"

text \<open>
  \<^verbatim>\<open>parseFloat(x)\<close>: the argument is converted to a string (\<open>None\<close> stands for
  \<^verbatim>\<open>undefined\<close>, which \<^verbatim>\<open>.val()\<close> returns when no input element was found), leading
  white space is dropped, and the longest literal prefix is the result; \<open>NaN\<close> when
  there is none.
\<close>

definition parseFloat :: "string option \<Rightarrow> jsnum" where
  "parseFloat x =
     (let inputString = (case x of None \<Rightarrow> ''undefined'' | Some s \<Rightarrow> s);
          trimmedString = dropWhile isWhiteSpace inputString
      in case scanStrDecimalLiteral trimmedString of
           None \<Rightarrow> NaN
         | Some (v, _) \<Rightarrow> v)"

definition trimString :: "string \<Rightarrow> string" where
  "trimString s = rev (dropWhile isWhiteSpace (rev (dropWhile isWhiteSpace s)))"

definition hexDigitValue :: "char \<Rightarrow> nat" where
  "hexDigitValue c =
     (if c \<in> set ''ABCDEF'' then 10 + index_of c ''ABCDEF''
      else index_of c ''0123456789abcdef'')"

definition radixLiteral :: "nat \<Rightarrow> string \<Rightarrow> string \<Rightarrow> jsnum" where
  "radixLiteral radix alphabet ds =
     (if ds \<noteq> [] \<and> list_all (\<lambda>c. c \<in> set alphabet) ds
      then Fin (of_nat (foldl (\<lambda>a c. radix * a + hexDigitValue c) 0 ds))
      else NaN)"

definition scanNonDecimalIntegerLiteral :: "string \<Rightarrow> jsnum option" where
  \<comment> \<open>\<open>Some\<close> when the text opens with \<^verbatim>\<open>0x\<close>, \<^verbatim>\<open>0o\<close> or \<^verbatim>\<open>0b\<close> in either case\<close>
  "scanNonDecimalIntegerLiteral s =
     (case s of
        z # p # ds \<Rightarrow>
          if z = CHR ''0'' then
            (if p = CHR ''x'' \<or> p = CHR ''X''
               then Some (radixLiteral 16 ''0123456789abcdefABCDEF'' ds)
             else if p = CHR ''o'' \<or> p = CHR ''O''
               then Some (radixLiteral 8 ''01234567'' ds)
             else if p = CHR ''b'' \<or> p = CHR ''B''
               then Some (radixLiteral 2 ''01'' ds)
             else None)
          else None
      | _ \<Rightarrow> None)"

text \<open>
  \<open>StringToNumber\<close>: white space is trimmed on both sides; the empty text is \<open>0\<close>; the
  whole of what remains must be one numeric literal, else the result is \<open>NaN\<close>.
\<close>

definition StringToNumber :: "string \<Rightarrow> jsnum" where
  "StringToNumber s =
     (let t = trimString s
      in if t = [] then Fin 0
         else case scanNonDecimalIntegerLiteral t of
                Some v \<Rightarrow> v
              | None \<Rightarrow>
                  (case scanStrDecimalLiteral t of
                     None \<Rightarrow> NaN
                   | Some (v, r) \<Rightarrow> if r = [] then v else NaN))"

definition ToNumber :: "string option \<Rightarrow> jsnum" where
  "ToNumber x = (case x of None \<Rightarrow> NaN | Some s \<Rightarrow> StringToNumber s)"


section \<open>Product quantity\<close>

text \<open>
  \<^verbatim>\<open>
  $('.quantity button').on('click', function () {
      var button = $(this);
      var oldValue = button.parent().parent().find('input').val();
      if (button.hasClass('btn-plus')) {
          var newVal = parseFloat(oldValue) + 1;
      } else {
          if (oldValue > 0) {
              var newVal = parseFloat(oldValue) - 1;
          } else {
              newVal = 0;
          }
      }
      button.parent().parent().find('input').val(newVal);
  });
  \<close>
  \<open>quantity_click\<close> takes the result of \<^verbatim>\<open>hasClass('btn-plus')\<close> and the text read from the
  field, and returns \<^verbatim>\<open>newVal\<close>, the number handed to \<^verbatim>\<open>.val(newVal)\<close>.
\<close>

definition quantity_click :: "bool \<Rightarrow> string option \<Rightarrow> jsnum" where
  "quantity_click hasClass_btn_plus oldValue =
     (if hasClass_btn_plus then js_add (parseFloat oldValue) (Fin 1)
      else if js_gt (ToNumber oldValue) (Fin 0) then js_sub (parseFloat oldValue) (Fin 1)
      else Fin 0)"

section \<open>The document, jQuery calls and events\<close>

text \<open>
  The handlers of the script are sequences of jQuery calls on selections. A handler is
  modelled as the list of calls it issues; \<open>run_calls\<close> carries the calls out on a
  document, with the end state jQuery documents for each method (a fade or an animation
  is represented by the state it ends in). An element carries what the script reads or
  changes: its tag, its class tokens, its other attributes, whether it is displayed, and
  its vertical scroll position.
\<close>

record element =
  tagName :: string
  classList :: "string list"
  attributes :: "(string \<times> string) list"
  displayed :: bool
  scrollTop :: jsnum

text \<open>
  The selectors of the script: \<^verbatim>\<open>.c\<close> is \<open>Class c\<close>, \<^verbatim>\<open>#i\<close> is \<open>Id i\<close>,
  \<^verbatim>\<open>html, body\<close> is \<open>Tags [''html'', ''body'']\<close> and \<^verbatim>\<open>a[href="#"]\<close> is
  \<open>TagAttr ''a'' ''href'' ''#''\<close>.
\<close>

datatype selector =
    Class string
  | Id string
  | Tags "string list"
  | TagAttr string string string

fun matches :: "selector \<Rightarrow> element \<Rightarrow> bool" where
  "matches (Class c) el = (c \<in> set (classList el))"
| "matches (Id i) el = (map_of (attributes el) ''id'' = Some i)"
| "matches (Tags ts) el = (tagName el \<in> set ts)"
| "matches (TagAttr t a v) el = (tagName el = t \<and> map_of (attributes el) a = Some v)"

definition hasClass :: "string \<Rightarrow> element \<Rightarrow> bool" where
  "hasClass c el = (c \<in> set (classList el))"

definition hasAttribute :: "element \<Rightarrow> string \<Rightarrow> bool" where
  "hasAttribute el name = (name \<in> set (map fst (attributes el)))"

text \<open>Option values of a plugin call: the object literals of the script.\<close>

datatype js_value =
    B bool
  | N int
  | S string
  | A "js_value list"
  | Obj "(string \<times> js_value) list"

fun field :: "string \<Rightarrow> js_value \<Rightarrow> js_value option" where
  "field k (Obj kvs) = map_of kvs k"
| "field k _ = None"

fun keys :: "js_value \<Rightarrow> string list" where
  "keys (Obj kvs) = map fst kvs"
| "keys _ = []"

datatype jq_call =
    AddClass string
  | RemoveClass string
  | FadeIn string
  | FadeOut string
  | Animate "(string \<times> jsnum) list" nat string
  | OwlCarousel js_value

text \<open>
  jQuery splits a class argument at runs of blanks (space, tab, CR, LF, FF);
  \<open>addClass\<close> appends each class that is not yet present and \<open>removeClass\<close> removes
  every occurrence of each.
\<close>

definition isHtmlWhite :: "char \<Rightarrow> bool" where
  "isHtmlWhite c = (c \<in> set [CHR 0x20, CHR 0x09, CHR 0x0D, CHR 0x0A, CHR 0x0C])"

fun splitClasses :: "string \<Rightarrow> string \<Rightarrow> string list" where
  "splitClasses cur [] = (if cur = [] then [] else [cur])"
| "splitClasses cur (c # cs) =
     (if isHtmlWhite c then (if cur = [] then splitClasses [] cs else cur # splitClasses [] cs)
      else splitClasses (cur @ [c]) cs)"

definition classesToArray :: "string \<Rightarrow> string list" where
  "classesToArray v = splitClasses [] v"

definition addClass :: "string \<Rightarrow> element \<Rightarrow> element" where
  "addClass v el =
     el\<lparr>classList :=
          foldl (\<lambda>cur clazz. if clazz \<in> set cur then cur else cur @ [clazz])
            (classList el) (classesToArray v)\<rparr>"

definition removeClass :: "string \<Rightarrow> element \<Rightarrow> element" where
  "removeClass v el =
     el\<lparr>classList := foldl (\<lambda>cur clazz. removeAll clazz cur) (classList el) (classesToArray v)\<rparr>"

fun apply_call :: "jq_call \<Rightarrow> element \<Rightarrow> element" where
  "apply_call (AddClass v) el = addClass v el"
| "apply_call (RemoveClass v) el = removeClass v el"
| "apply_call (FadeIn speed) el = el\<lparr>displayed := True\<rparr>"
| "apply_call (FadeOut speed) el = el\<lparr>displayed := False\<rparr>"
| "apply_call (Animate props duration easing) el =
     (case map_of props ''scrollTop'' of None \<Rightarrow> el | Some v \<Rightarrow> el\<lparr>scrollTop := v\<rparr>)"
| "apply_call (OwlCarousel opts) el = el"

definition jq :: "selector \<Rightarrow> jq_call \<Rightarrow> element list \<Rightarrow> element list" where
  "jq sel c doc = map (\<lambda>el. if matches sel el then apply_call c el else el) doc"

definition run_calls :: "(selector \<times> jq_call) list \<Rightarrow> element list \<Rightarrow> element list" where
  "run_calls cs doc = foldl (\<lambda>d (sel, c). jq sel c d) doc cs"

text \<open>
  An event, and what jQuery does with a handler's return value: a handler that returns
  \<^verbatim>\<open>false\<close> has \<^verbatim>\<open>preventDefault()\<close> and \<^verbatim>\<open>stopPropagation()\<close> called for it.
  The browser performs an anchor's default navigation only when the default was not
  prevented.
\<close>

record event =
  defaultPrevented :: bool
  propagationStopped :: bool

datatype handler_return = ReturnUndefined | ReturnFalse

definition preventDefault :: "event \<Rightarrow> event" where
  "preventDefault e = e\<lparr>defaultPrevented := True\<rparr>"

definition stopPropagation :: "event \<Rightarrow> event" where
  "stopPropagation e = e\<lparr>propagationStopped := True\<rparr>"

definition dispatch_return :: "handler_return \<Rightarrow> event \<Rightarrow> event" where
  "dispatch_return r e =
     (case r of ReturnUndefined \<Rightarrow> e | ReturnFalse \<Rightarrow> stopPropagation (preventDefault e))"

text \<open>What a statement or a handler throws.\<close>

datatype js_error = ReferenceError string | TypeError string

text \<open>
  The optional libraries. \<open>WOW_defined\<close> is \<^verbatim>\<open>typeof WOW !== 'undefined'\<close>. \<open>fn\<close> is
  \<^verbatim>\<open>$.fn\<close>: \<open>None\<close> when it is undefined, else the plugin methods added to jQuery's own.
  \<open>easing\<close> is \<^verbatim>\<open>$.easing\<close>: \<open>None\<close> when undefined, else the names of the timing
  functions beyond jQuery's own \<^verbatim>\<open>linear\<close> and \<^verbatim>\<open>swing\<close>.
  jQuery's effects module defines \<^verbatim>\<open>$.easing\<close> together with \<^verbatim>\<open>.animate\<close>: a build
  without it has neither, and a call of \<^verbatim>\<open>.animate\<close> there is a \<^verbatim>\<open>TypeError\<close>.
\<close>

record lib_env =
  WOW_defined :: bool
  fn :: "string list option"
  easing :: "string list option"

definition fn_has :: "lib_env \<Rightarrow> string \<Rightarrow> bool" where
  \<comment> \<open>\<^verbatim>\<open>$.fn && $.fn.m\<close> for a plugin method \<open>m\<close>\<close>
  "fn_has lib m = (case fn lib of None \<Rightarrow> False | Some plugins \<Rightarrow> m \<in> set plugins)"

definition easing_has :: "lib_env \<Rightarrow> string \<Rightarrow> bool" where
  \<comment> \<open>\<^verbatim>\<open>$.easing && $.easing.f\<close> for a plugin timing function \<open>f\<close>\<close>
  "easing_has lib f = (case easing lib of None \<Rightarrow> False | Some fs \<Rightarrow> f \<in> set fs)"


section \<open>The scroll handlers\<close>

text \<open>
  \<^verbatim>\<open>
  $(window).scroll(function () {
      if ($(this).scrollTop() > 45) {
          $('.nav-bar').addClass('sticky-top shadow-sm');
      } else {
          $('.nav-bar').removeClass('sticky-top shadow-sm');
      }
  });
  \<close>
  The argument is the value of \<^verbatim>\<open>$(this).scrollTop()\<close>.
\<close>

definition sticky_navbar_scroll :: "jsnum \<Rightarrow> (selector \<times> jq_call) list" where
  "sticky_navbar_scroll offset =
     (if js_gt offset (Fin 45) then [(Class ''nav-bar'', AddClass ''sticky-top shadow-sm'')]
      else [(Class ''nav-bar'', RemoveClass ''sticky-top shadow-sm'')])"

text \<open>
  \<^verbatim>\<open>
  $(window).scroll(function () {
      if ($(this).scrollTop() > 300) {
          $('.back-to-top').fadeIn('slow');
      } else {
          $('.back-to-top').fadeOut('slow');
      }
  });
  \<close>
\<close>

definition back_to_top_scroll :: "jsnum \<Rightarrow> (selector \<times> jq_call) list" where
  "back_to_top_scroll offset =
     (if js_gt offset (Fin 300) then [(Class ''back-to-top'', FadeIn ''slow'')]
      else [(Class ''back-to-top'', FadeOut ''slow'')])"


section \<open>The click handlers\<close>

text \<open>
  \<^verbatim>\<open>
  $('.back-to-top').click(function () {
      var easing = ($.easing && $.easing.easeInOutExpo) ? 'easeInOutExpo' : 'swing';
      $('html, body').animate({scrollTop: 0}, 1500, easing);
      return false;
  });
  \<close>
\<close>

definition back_to_top_click ::
  "lib_env \<Rightarrow> js_error + (selector \<times> jq_call) list \<times> handler_return" where
  "back_to_top_click lib =
     (let easing' = (if easing_has lib ''easeInOutExpo'' then ''easeInOutExpo'' else ''swing'')
      in if fn lib = None \<or> easing lib = None then Inl (TypeError ''animate'')
         else Inr ([(Tags [''html'', ''body''], Animate [(''scrollTop'', Fin 0)] 1500 easing')],
                   ReturnFalse))"

text \<open>
  What a run of a handler leaves behind: the calls it issued, and the event after
  jQuery has looked at the return value. A handler that threw issued no call and
  returned nothing, so the event is as it was.
\<close>

definition handler_calls ::
  "js_error + (selector \<times> jq_call) list \<times> handler_return \<Rightarrow> (selector \<times> jq_call) list" where
  "handler_calls r = (case r of Inl _ \<Rightarrow> [] | Inr (cs, _) \<Rightarrow> cs)"

definition handler_event ::
  "js_error + (selector \<times> jq_call) list \<times> handler_return \<Rightarrow> event \<Rightarrow> event" where
  "handler_event r e = (case r of Inl _ \<Rightarrow> e | Inr (_, ret) \<Rightarrow> dispatch_return ret e)"

text \<open>
  \<^verbatim>\<open>
  $(document).on('click', 'a[href="#"]', function (e) {
      if (this.hasAttribute('data-bs-toggle')) return;
      e.preventDefault();
  });
  \<close>
  \<open>placeholder_click\<close> is the handler; \<open>placeholder_dispatch\<close> is the delegation: the
  handler runs for an element the selector matches and the event is untouched otherwise.
\<close>

definition placeholder_click :: "element \<Rightarrow> event \<Rightarrow> event \<times> handler_return" where
  "placeholder_click this e =
     (if hasAttribute this ''data-bs-toggle'' then (e, ReturnUndefined)
      else (preventDefault e, ReturnUndefined))"

definition placeholder_dispatch :: "element \<Rightarrow> event \<Rightarrow> event" where
  "placeholder_dispatch el e =
     (if matches (TagAttr ''a'' ''href'' ''#'') el
      then (case placeholder_click el e of (e', r) \<Rightarrow> dispatch_return r e')
      else e)"


section \<open>Startup\<close>

text \<open>
  The script's body runs once, top to bottom. Each statement either appends what it did
  to the trace or throws, which ends the run: a call of \<^verbatim>\<open>new WOW()\<close> with \<^verbatim>\<open>WOW\<close>
  undeclared is a \<^verbatim>\<open>ReferenceError\<close>, and a call of a method that a jQuery selection
  does not have is a \<^verbatim>\<open>TypeError\<close>. jQuery's own methods (\<^verbatim>\<open>scroll\<close>, \<^verbatim>\<open>on\<close>,
  \<^verbatim>\<open>click\<close>) exist when \<^verbatim>\<open>$.fn\<close> does.
\<close>

datatype target = Window | Document | Query string

datatype listener =
    StickyNavbar
  | QuantityStepper
  | BackToTopVisibility
  | BackToTopClick
  | PlaceholderLink

datatype action =
    SetTimeout nat
  | NewWowInit
  | Listen target string "selector option" listener
  | Plugin selector jq_call

type_synonym stmt = "action list \<Rightarrow> js_error + action list"

text \<open>
  \<^verbatim>\<open>
  var spinner = function () {
      setTimeout(function () {
          if ($('#spinner').length > 0) {
              $('#spinner').removeClass('show');
          }
      }, 1);
  };
  spinner(0);
  \<close>
\<close>

definition spinner :: stmt where
  "spinner tr = Inr (tr @ [SetTimeout 1])"

definition spinner_timeout :: "element list \<Rightarrow> (selector \<times> jq_call) list" where
  "spinner_timeout doc =
     (if length (filter (matches (Id ''spinner'')) doc) > 0
      then [(Id ''spinner'', RemoveClass ''show'')] else [])"

definition new_WOW_init :: "lib_env \<Rightarrow> stmt" where
  "new_WOW_init lib tr =
     (if WOW_defined lib then Inr (tr @ [NewWowInit]) else Inl (ReferenceError ''WOW''))"

definition owlCarousel :: "lib_env \<Rightarrow> selector \<Rightarrow> js_value \<Rightarrow> stmt" where
  "owlCarousel lib sel opts tr =
     (if fn_has lib ''owlCarousel'' then Inr (tr @ [Plugin sel (OwlCarousel opts)])
      else Inl (TypeError ''owlCarousel''))"

definition listen :: "lib_env \<Rightarrow> target \<Rightarrow> string \<Rightarrow> selector option \<Rightarrow> listener \<Rightarrow> stmt" where
  "listen lib tgt ev delegate l tr =
     (if fn lib = None then Inl (TypeError ev) else Inr (tr @ [Listen tgt ev delegate l]))"

definition guarded :: "bool \<Rightarrow> stmt \<Rightarrow> stmt" where
  \<comment> \<open>\<^verbatim>\<open>if (c) { s }\<close>\<close>
  "guarded c s tr = (if c then s tr else Inr tr)"

fun run_all :: "stmt list \<Rightarrow> stmt" where
  "run_all [] tr = Inr tr"
| "run_all (s # ss) tr = (case s tr of Inl e \<Rightarrow> Inl e | Inr tr' \<Rightarrow> run_all ss tr')"

text \<open>The five option objects, fields in the order of the script.\<close>

definition header_options :: js_value where
  \<open>header_options = Obj
     [(''items'', N 1), (''autoplay'', B True), (''smartSpeed'', N 2000),
      (''center'', B False), (''dots'', B False), (''loop'', B True), (''margin'', N 0),
      (''nav'', B True),
      (''navText'', A [S ''<i class="bi bi-arrow-left"></i>'',
                       S ''<i class="bi bi-arrow-right"></i>''])]\<close>

definition productList_options :: js_value where
  \<open>productList_options = Obj
     [(''autoplay'', B True), (''smartSpeed'', N 2000), (''dots'', B False),
      (''loop'', B True), (''margin'', N 25), (''nav'', B True),
      (''navText'', A [S ''<i class="fas fa-chevron-left"></i>'',
                       S ''<i class="fas fa-chevron-right"></i>'']),
      (''responsiveClass'', B True),
      (''responsive'', Obj
         [(''0'', Obj [(''items'', N 1)]), (''576'', Obj [(''items'', N 1)]),
          (''768'', Obj [(''items'', N 2)]), (''992'', Obj [(''items'', N 2)]),
          (''1200'', Obj [(''items'', N 3)])])]\<close>

definition productImg_options :: js_value where
  \<open>productImg_options = Obj
     [(''autoplay'', B True), (''smartSpeed'', N 1500), (''dots'', B False),
      (''loop'', B True), (''items'', N 1), (''margin'', N 25), (''nav'', B True),
      (''navText'', A [S ''<i class="bi bi-arrow-left"></i>'',
                       S ''<i class="bi bi-arrow-right"></i>''])]\<close>

definition single_options :: js_value where
  \<open>single_options = Obj
     [(''autoplay'', B True), (''smartSpeed'', N 1500), (''dots'', B True),
      (''dotsData'', B True), (''loop'', B True), (''items'', N 1), (''nav'', B True),
      (''navText'', A [S ''<i class="bi bi-arrow-left"></i>'',
                       S ''<i class="bi bi-arrow-right"></i>''])]\<close>

definition related_options :: js_value where
  \<open>related_options = Obj
     [(''autoplay'', B True), (''smartSpeed'', N 1500), (''dots'', B False),
      (''loop'', B True), (''margin'', N 25), (''nav'', B True),
      (''navText'', A [S ''<i class="fas fa-chevron-left"></i>'',
                       S ''<i class="fas fa-chevron-right"></i>'']),
      (''responsiveClass'', B True),
      (''responsive'', Obj
         [(''0'', Obj [(''items'', N 1)]), (''576'', Obj [(''items'', N 1)]),
          (''768'', Obj [(''items'', N 2)]), (''992'', Obj [(''items'', N 3)]),
          (''1200'', Obj [(''items'', N 4)])])]\<close>

text \<open>
  The body of the script, statement by statement: the spinner, the guarded
  \<^verbatim>\<open>new WOW().init()\<close>, the sticky-navbar scroll listener, the five carousels each under
  \<^verbatim>\<open>if ($.fn && $.fn.owlCarousel)\<close>, the quantity click listener, the back-to-top scroll
  and click listeners, and the delegated click listener of the document.
\<close>

definition startup :: "lib_env \<Rightarrow> js_error + action list" where
  "startup lib =
     run_all
       [spinner,
        guarded (WOW_defined lib) (new_WOW_init lib),
        listen lib Window ''scroll'' None StickyNavbar,
        guarded (fn_has lib ''owlCarousel'')
          (owlCarousel lib (Class ''header-carousel'') header_options),
        guarded (fn_has lib ''owlCarousel'')
          (owlCarousel lib (Class ''productList-carousel'') productList_options),
        guarded (fn_has lib ''owlCarousel'')
          (owlCarousel lib (Class ''productImg-carousel'') productImg_options),
        guarded (fn_has lib ''owlCarousel'')
          (owlCarousel lib (Class ''single-carousel'') single_options),
        guarded (fn_has lib ''owlCarousel'')
          (owlCarousel lib (Class ''related-carousel'') related_options),
        listen lib (Query ''.quantity button'') ''click'' None QuantityStepper,
        listen lib Window ''scroll'' None BackToTopVisibility,
        listen lib (Query ''.back-to-top'') ''click'' None BackToTopClick,
        listen lib Document ''click'' (Some (TagAttr ''a'' ''href'' ''#'')) PlaceholderLink]
       []"

text \<open>Reading a run: whether it threw, and what it did.\<close>

definition threw :: "js_error + action list \<Rightarrow> bool" where
  "threw r = (case r of Inl _ \<Rightarrow> True | Inr _ \<Rightarrow> False)"

definition actions_of :: "js_error + action list \<Rightarrow> action list" where
  "actions_of r = (case r of Inl _ \<Rightarrow> [] | Inr tr \<Rightarrow> tr)"

fun is_Listen :: "action \<Rightarrow> bool" where
  "is_Listen (Listen tgt ev delegate l) = True"
| "is_Listen _ = False"

definition listeners :: "action list \<Rightarrow> action list" where
  "listeners tr = filter is_Listen tr"

fun carousel_of :: "action \<Rightarrow> (selector \<times> js_value) option" where
  "carousel_of (Plugin sel (OwlCarousel opts)) = Some (sel, opts)"
| "carousel_of _ = None"

definition carousels :: "action list \<Rightarrow> (selector \<times> js_value) list" where
  "carousels tr = List.map_filter carousel_of tr"

definition breakpoints :: "js_value \<Rightarrow> string list" where
  \<comment> \<open>the widths under \<^verbatim>\<open>responsive\<close>; none when the field is missing\<close>
  "breakpoints opts = (case field ''responsive'' opts of None \<Rightarrow> [] | Some r \<Rightarrow> keys r)"


section \<open>Vocabulary of the properties\<close>

text \<open>
  \<open>startsLiteral s\<close>: some prefix of \<open>s\<close> is a \<open>StrUnsignedDecimalLiteral\<close>. It is what
  the scanner's success amounts to.
\<close>

definition startsLiteral :: "string \<Rightarrow> bool" where
  "startsLiteral s =
     (prefix ''Infinity'' s \<or>
      (case s of
         [] \<Rightarrow> False
       | c # t \<Rightarrow>
           isDigit c \<or> (c = CHR ''.'' \<and> (case t of [] \<Rightarrow> False | d # u \<Rightarrow> isDigit d))))"

text \<open>The five listeners of the script, in the order of their registration.\<close>

definition all_listeners :: "action list" where
  "all_listeners =
     [Listen Window ''scroll'' None StickyNavbar,
      Listen (Query ''.quantity button'') ''click'' None QuantityStepper,
      Listen Window ''scroll'' None BackToTopVisibility,
      Listen (Query ''.back-to-top'') ''click'' None BackToTopClick,
      Listen Document ''click'' (Some (TagAttr ''a'' ''href'' ''#'')) PlaceholderLink]"

definition all_carousels :: "(selector \<times> js_value) list" where
  "all_carousels =
     [(Class ''header-carousel'', header_options),
      (Class ''productList-carousel'', productList_options),
      (Class ''productImg-carousel'', productImg_options),
      (Class ''single-carousel'', single_options),
      (Class ''related-carousel'', related_options)]"

definition has_autoplay_loop_nav :: "js_value \<Rightarrow> bool" where
  "has_autoplay_loop_nav opts =
     (field ''autoplay'' opts = Some (B True) \<and> field ''loop'' opts = Some (B True)
      \<and> field ''nav'' opts = Some (B True) \<and> field ''navText'' opts \<noteq> None)"

text \<open>
  Two environments: every optional library loaded, and none of them (jQuery alone).
\<close>

definition full_lib :: lib_env where
  "full_lib =
     \<lparr>WOW_defined = True, fn = Some [''owlCarousel''], easing = Some [''easeInOutExpo'']\<rparr>"

definition bare_lib :: lib_env where
  "bare_lib = \<lparr>WOW_defined = False, fn = Some [], easing = Some []\<rparr>"

text \<open>Sample elements: a navigation bar, the back-to-top control, the page root, two anchors.\<close>

definition nav_element :: element where
  "nav_element =
     \<lparr>tagName = ''div'', classList = [''container-fluid'', ''nav-bar''], attributes = [],
      displayed = True, scrollTop = Fin 0\<rparr>"

definition top_element :: element where
  "top_element =
     \<lparr>tagName = ''a'', classList = [''btn'', ''back-to-top''], attributes = [(''href'', ''#'')],
      displayed = False, scrollTop = Fin 0\<rparr>"

definition root_element :: element where
  "root_element =
     \<lparr>tagName = ''html'', classList = [], attributes = [], displayed = True,
      scrollTop = Fin 800\<rparr>"

definition plain_anchor :: element where
  "plain_anchor =
     \<lparr>tagName = ''a'', classList = [''nav-link''], attributes = [(''href'', ''#'')],
      displayed = True, scrollTop = Fin 0\<rparr>"

definition toggle_anchor :: element where
  "toggle_anchor =
     \<lparr>tagName = ''a'', classList = [''nav-link'', ''dropdown-toggle''],
      attributes = [(''href'', ''#''), (''data-bs-toggle'', ''dropdown'')],
      displayed = True, scrollTop = Fin 0\<rparr>"

definition fresh_event :: event where
  "fresh_event = \<lparr>defaultPrevented = False, propagationStopped = False\<rparr>"


section \<open>Evaluation rules\<close>

lemmas number_defs =
  ToNumber_def StringToNumber_def scanNonDecimalIntegerLiteral_def radixLiteral_def
  hexDigitValue_def trimString_def parseFloat_def scanStrDecimalLiteral_def
  scanStrUnsignedDecimalLiteral_def withExponent_def scanExponentPart_def scale10_def
  decimalValue_def index_of_def isDigit_def isWhiteSpace_def js_gt_def js_sub_def
  js_ge_zero_def

lemmas startup_defs =
  startup_def spinner_def guarded_def new_WOW_init_def owlCarousel_def listen_def
  threw_def actions_of_def listeners_def carousels_def

lemmas option_defs =
  header_options_def productList_options_def productImg_options_def single_options_def
  related_options_def


section \<open>Properties of the quantity stepper\<close>

text \<open>
  Where the field's text denotes the same finite number \<open>v \<ge> 0\<close> under both conversions,
  the plus button writes \<open>v + 1\<close>; the other button writes \<open>v - 1\<close> when \<open>0 < v\<close> and
  \<open>0\<close> when \<open>v = 0\<close>. The result is \<open>max (v - 1) 0\<close> exactly when \<open>v = 0\<close> or \<open>1 \<le> v\<close>.
\<close>

lemma quantity_click_plus_numeric:
  assumes "parseFloat (Some s) = Fin v"
  shows "quantity_click True (Some s) = Fin (v + 1)"
  using assms by (simp add: quantity_click_def)

lemma quantity_click_minus_numeric:
  assumes "parseFloat (Some s) = Fin v" and "ToNumber (Some s) = Fin v"
  shows "quantity_click False (Some s) = (if 0 < v then Fin (v - 1) else Fin 0)"
  using assms by (simp add: quantity_click_def js_gt_def js_sub_def)

lemma quantity_click_minus_whole:
  assumes "parseFloat (Some s) = Fin v" and "ToNumber (Some s) = Fin v"
    and "v = 0 \<or> 1 \<le> v"
  shows "quantity_click False (Some s) = Fin (max (v - 1) 0)"
  using assms by (auto simp: quantity_click_def js_gt_def js_sub_def max_def)

text \<open>
  C1. The claim: for every value \<open>v \<ge> 0\<close> in the field the plus button writes \<open>v + 1\<close>,
  the other button writes \<open>max (v - 1) 0\<close>, and a decrement never writes a negative value.
  The field holding \<^verbatim>\<open>0.5\<close> passes the guard \<^verbatim>\<open>oldValue > 0\<close>, and the decrement
  writes \<open>-1/2\<close>, where \<open>max (v - 1) 0\<close> is \<open>0\<close>.
\<close>

theorem quantity_decrement_of_half:
  "parseFloat (Some ''0.5'') = Fin (1 / 2) \<and> ToNumber (Some ''0.5'') = Fin (1 / 2)
   \<and> quantity_click False (Some ''0.5'') = Fin (- 1 / 2)
   \<and> quantity_click False (Some ''0.5'') \<noteq> Fin (max (1 / 2 - 1) 0)"
  by (simp add: quantity_click_def number_defs)

text \<open>
  C2. The claim: with the field empty or holding non-numeric text, the plus button
  treats the value as \<open>0\<close> and writes \<open>1\<close>, never \<open>NaN\<close>. \<^verbatim>\<open>parseFloat\<close> of such text
  is \<open>NaN\<close> and the increment branch adds \<open>1\<close> to it unguarded: the value written is \<open>NaN\<close>.
\<close>

theorem quantity_increment_of_unparsable:
  "quantity_click True (Some '''') = NaN \<and> quantity_click True (Some ''abc'') = NaN
   \<and> quantity_click True (Some '''') \<noteq> Fin 1"
  by (simp add: quantity_click_def number_defs)

text \<open>
  C3. The claim: the quantity is always \<open>\<ge> 0\<close>; from any value \<open>v \<ge> 0\<close>, the value
  written by either button is still \<open>\<ge> 0\<close>. From \<^verbatim>\<open>0.25\<close>, which is \<open>\<ge> 0\<close>, the
  decrement writes \<open>-3/4\<close>, which is not.
\<close>

theorem quantity_nonnegative_broken_below_one:
  "js_ge_zero (ToNumber (Some ''0.25'')) \<and> js_ge_zero (parseFloat (Some ''0.25''))
   \<and> quantity_click False (Some ''0.25'') = Fin (- 3 / 4)
   \<and> \<not> js_ge_zero (quantity_click False (Some ''0.25''))"
  by (simp add: quantity_click_def number_defs)


section \<open>The decrement guard and the parse\<close>

text \<open>
  The guard \<^verbatim>\<open>oldValue > 0\<close> and \<^verbatim>\<open>parseFloat(oldValue)\<close> read the text differently,
  but whenever the guard holds the parse succeeds: a text whose whole is a numeric
  literal has a literal prefix.
\<close>

lemma scan_unsigned_None_iff:
  "scanStrUnsignedDecimalLiteral s = None \<longleftrightarrow> \<not> startsLiteral s"
proof (cases s)
  case Nil
  then show ?thesis by (simp add: scanStrUnsignedDecimalLiteral_def startsLiteral_def)
next
  case (Cons c t)
  have empty_iff: "takeWhile P xs = [] \<longleftrightarrow> (case xs of [] \<Rightarrow> True | x # _ \<Rightarrow> \<not> P x)"
    for P :: "char \<Rightarrow> bool" and xs
    by (cases xs) auto
  show ?thesis
  proof (cases "isDigit c")
    case True
    then show ?thesis using Cons
      by (auto simp: scanStrUnsignedDecimalLiteral_def startsLiteral_def Let_def
          split: list.splits)
  next
    case False
    then show ?thesis using Cons
      by (auto simp: scanStrUnsignedDecimalLiteral_def startsLiteral_def Let_def empty_iff
          split: list.splits)
  qed
qed

lemma scan_unsigned_Some_starts:
  "scanStrUnsignedDecimalLiteral s = Some p \<Longrightarrow> startsLiteral s"
  using scan_unsigned_None_iff [of s] by auto

lemma startsLiteral_append: "startsLiteral s \<Longrightarrow> startsLiteral (s @ w)"
  unfolding startsLiteral_def by (auto split: list.splits)

lemma scan_signed_None_iff:
  "scanStrDecimalLiteral s = None \<longleftrightarrow>
     \<not> (case s of
          [] \<Rightarrow> False
        | c # t \<Rightarrow> if c = CHR ''+'' \<or> c = CHR ''-'' then startsLiteral t else startsLiteral s)"
  by (cases s)
     (auto simp: scanStrDecimalLiteral_def scan_unsigned_None_iff split: option.splits
           dest: scan_unsigned_Some_starts)

lemma scan_signed_append:
  assumes "scanStrDecimalLiteral s \<noteq> None"
  shows "scanStrDecimalLiteral (s @ w) \<noteq> None"
proof (cases s)
  case Nil
  with assms show ?thesis by (simp add: scanStrDecimalLiteral_def)
next
  case (Cons c t)
  with assms show ?thesis
    using startsLiteral_append [of t w] startsLiteral_append [of s w]
    by (auto simp: scan_signed_None_iff split: if_splits)
qed

lemma withExponent_not_NaN: "fst (withExponent ip fp r) \<noteq> NaN"
  by (simp add: withExponent_def Let_def split: option.splits)

lemma scan_unsigned_not_NaN:
  assumes "scanStrUnsignedDecimalLiteral s = Some (v, r)"
  shows "v \<noteq> NaN"
  using assms withExponent_not_NaN
  by (auto simp: scanStrUnsignedDecimalLiteral_def Let_def split: if_splits list.splits)
     (metis fst_conv)+

lemma scan_signed_not_NaN:
  assumes "scanStrDecimalLiteral s = Some (v, r)"
  shows "v \<noteq> NaN"
proof -
  have neg: "js_neg x \<noteq> NaN" if "x \<noteq> NaN" for x
    using that by (cases x) auto
  show ?thesis
    using assms scan_unsigned_not_NaN neg
    by (cases s) (auto simp: scanStrDecimalLiteral_def split: if_splits option.splits)
qed

lemma parseFloat_NaN_iff:
  "parseFloat (Some s) = NaN \<longleftrightarrow> scanStrDecimalLiteral (dropWhile isWhiteSpace s) = None"
  using scan_signed_not_NaN
  by (auto simp: parseFloat_def Let_def split: option.splits)

lemma trimString_decompose: "\<exists>w. dropWhile isWhiteSpace s = trimString s @ w"
proof -
  let ?t = "dropWhile isWhiteSpace s"
  have "rev ?t = takeWhile isWhiteSpace (rev ?t) @ dropWhile isWhiteSpace (rev ?t)"
    by simp
  then have "rev (rev ?t) =
      rev (takeWhile isWhiteSpace (rev ?t) @ dropWhile isWhiteSpace (rev ?t))"
    by simp
  then have "?t = rev (dropWhile isWhiteSpace (rev ?t)) @ rev (takeWhile isWhiteSpace (rev ?t))"
    by (simp only: rev_rev_ident rev_append)
  then show ?thesis unfolding trimString_def by blast
qed

lemma nonDecimal_has_decimal_prefix:
  assumes "scanNonDecimalIntegerLiteral t = Some v"
  shows "scanStrDecimalLiteral (t @ w) \<noteq> None"
proof -
  from assms obtain p ds where t: "t = CHR ''0'' # p # ds"
    by (auto simp: scanNonDecimalIntegerLiteral_def split: list.splits if_splits)
  have "isDigit (CHR ''0'')" by (simp add: isDigit_def)
  then have "startsLiteral (t @ w)" by (simp add: t startsLiteral_def)
  then show ?thesis by (simp add: scan_signed_None_iff t)
qed

lemma guard_true_parse_ok:
  assumes "js_gt (ToNumber x) (Fin 0)"
  shows "parseFloat x \<noteq> NaN"
proof (cases x)
  case None
  with assms show ?thesis by (simp add: ToNumber_def js_gt_def)
next
  case (Some s)
  obtain w where w: "dropWhile isWhiteSpace s = trimString s @ w"
    using trimString_decompose by blast
  have "scanStrDecimalLiteral (trimString s @ w) \<noteq> None"
  proof (cases "scanNonDecimalIntegerLiteral (trimString s)")
    case (Some v)
    then show ?thesis by (rule nonDecimal_has_decimal_prefix)
  next
    case None
    with assms \<open>x = Some s\<close> have "scanStrDecimalLiteral (trimString s) \<noteq> None"
      by (auto simp: ToNumber_def StringToNumber_def js_gt_def Let_def
          split: if_splits option.splits)
    then show ?thesis by (rule scan_signed_append)
  qed
  then show ?thesis by (simp add: Some parseFloat_NaN_iff w)
qed

lemma js_sub_one_not_NaN: "v \<noteq> NaN \<Longrightarrow> js_sub v (Fin 1) \<noteq> NaN"
  by (cases v) (auto simp: js_sub_def)

text \<open>Whatever the field holds, the decrement never writes \<open>NaN\<close>.\<close>

lemma quantity_decrement_never_NaN: "quantity_click False x \<noteq> NaN"
  using guard_true_parse_ok [of x] js_sub_one_not_NaN
  by (auto simp: quantity_click_def)

text \<open>
  C10. With the field empty, or holding text that \<^verbatim>\<open>parseFloat\<close> cannot parse, or text
  that is not a number as a whole, the decrement writes exactly \<open>0\<close>: not \<open>NaN\<close>, not a
  negative value. The guard \<^verbatim>\<open>oldValue > 0\<close> is false for such text, so the parse is
  never reached.
\<close>

theorem quantity_decrement_of_unparsable:
  assumes "s = [] \<or> parseFloat (Some s) = NaN \<or> ToNumber (Some s) = NaN"
  shows "quantity_click False (Some s) = Fin 0
       \<and> quantity_click False (Some s) \<noteq> NaN
       \<and> js_ge_zero (quantity_click False (Some s))"
proof -
  have "\<not> js_gt (ToNumber (Some s)) (Fin 0)"
  proof
    assume g: "js_gt (ToNumber (Some s)) (Fin 0)"
    then have "parseFloat (Some s) \<noteq> NaN" by (rule guard_true_parse_ok)
    moreover have "ToNumber (Some s) \<noteq> NaN" using g by (auto simp: js_gt_def)
    moreover have "s \<noteq> []"
      using g by (auto simp: js_gt_def ToNumber_def StringToNumber_def trimString_def)
    ultimately show False using assms by blast
  qed
  then have "quantity_click False (Some s) = Fin 0" by (simp add: quantity_click_def)
  then show ?thesis by (simp add: js_ge_zero_def)
qed

theorem quantity_decrement_of_unparsable_witness:
  "parseFloat (Some ''abc'') = NaN \<and> quantity_click False (Some ''abc'') = Fin 0
   \<and> ToNumber (Some ''12abc'') = NaN \<and> quantity_click False (Some ''12abc'') = Fin 0
   \<and> quantity_click False (Some []) = Fin 0"
proof -
  have a: "parseFloat (Some ''abc'') = NaN" by (simp add: number_defs)
  have b: "ToNumber (Some ''12abc'') = NaN" by (simp add: number_defs)
  show ?thesis
    using a b quantity_decrement_of_unparsable [of "''abc''"]
      quantity_decrement_of_unparsable [of "''12abc''"]
      quantity_decrement_of_unparsable [of "[]"]
    by simp
qed


section \<open>Properties of the scroll handlers\<close>

lemma sticky_classes:
  "classesToArray ''sticky-top shadow-sm'' = [''sticky-top'', ''shadow-sm'']"
  by (simp add: classesToArray_def isHtmlWhite_def)

text \<open>
  C4. For every scroll offset, after the sticky-navbar handler has run, each element
  that \<^verbatim>\<open>.nav-bar\<close> selects carries \<^verbatim>\<open>sticky-top\<close> exactly when the offset exceeds 45,
  and likewise \<^verbatim>\<open>shadow-sm\<close>. The calls depend on the offset alone, and running them a
  second time at the same offset changes nothing.
\<close>

theorem sticky_navbar_iff_offset:
  "(\<forall>el \<in> set (run_calls (sticky_navbar_scroll offset) doc).
      matches (Class ''nav-bar'') el \<longrightarrow>
        (hasClass ''sticky-top'' el \<longleftrightarrow> js_gt offset (Fin 45)) \<and>
        (hasClass ''shadow-sm'' el \<longleftrightarrow> js_gt offset (Fin 45)))
   \<and> run_calls (sticky_navbar_scroll offset) (run_calls (sticky_navbar_scroll offset) doc)
       = run_calls (sticky_navbar_scroll offset) doc"
proof (cases "js_gt offset (Fin 45)")
  case True
  have "run_calls (sticky_navbar_scroll offset) d =
      jq (Class ''nav-bar'') (AddClass ''sticky-top shadow-sm'') d" for d
    using True by (simp add: sticky_navbar_scroll_def run_calls_def)
  then show ?thesis using True
    by (auto simp: jq_def addClass_def sticky_classes hasClass_def)
next
  case False
  have "run_calls (sticky_navbar_scroll offset) d =
      jq (Class ''nav-bar'') (RemoveClass ''sticky-top shadow-sm'') d" for d
    using False by (simp add: sticky_navbar_scroll_def run_calls_def)
  then show ?thesis using False
    by (auto simp: jq_def removeClass_def sticky_classes hasClass_def)
qed

theorem sticky_navbar_iff_offset_witness:
  "nav_element\<lparr>classList := [''container-fluid'', ''nav-bar'', ''sticky-top'', ''shadow-sm'']\<rparr>
     \<in> set (run_calls (sticky_navbar_scroll (Fin 46)) [nav_element])
   \<and> js_gt (Fin 46) (Fin 45)
   \<and> hasClass ''sticky-top''
       (nav_element\<lparr>classList := [''container-fluid'', ''nav-bar'', ''sticky-top'', ''shadow-sm'']\<rparr>)
   \<and> nav_element \<in> set (run_calls (sticky_navbar_scroll (Fin 45)) [nav_element])
   \<and> \<not> js_gt (Fin 45) (Fin 45)
   \<and> \<not> hasClass ''sticky-top'' nav_element"
  using sticky_navbar_iff_offset [of "Fin 46" "[nav_element]"]
    sticky_navbar_iff_offset [of "Fin 45" "[nav_element]"]
  by (simp add: sticky_navbar_scroll_def run_calls_def jq_def addClass_def removeClass_def
      sticky_classes hasClass_def nav_element_def js_gt_def)

text \<open>
  C5. For every scroll offset the back-to-top handler issues one call on
  \<^verbatim>\<open>.back-to-top\<close>: \<^verbatim>\<open>fadeIn('slow')\<close> when the offset exceeds 300 and
  \<^verbatim>\<open>fadeOut('slow')\<close> otherwise, a fade of the speed \<^verbatim>\<open>slow\<close> in both cases. Once the
  fade has run, the control is displayed exactly when the offset exceeds 300.
\<close>

theorem back_to_top_visibility:
  "back_to_top_scroll offset =
     [(Class ''back-to-top'',
       if js_gt offset (Fin 300) then FadeIn ''slow'' else FadeOut ''slow'')]
   \<and> (\<forall>el \<in> set (run_calls (back_to_top_scroll offset) doc).
        matches (Class ''back-to-top'') el \<longrightarrow> (displayed el \<longleftrightarrow> js_gt offset (Fin 300)))"
  by (auto simp: back_to_top_scroll_def run_calls_def jq_def)

theorem back_to_top_visibility_witness:
  "top_element\<lparr>displayed := True\<rparr> \<in> set (run_calls (back_to_top_scroll (Fin 301)) [top_element])
   \<and> matches (Class ''back-to-top'') (top_element\<lparr>displayed := True\<rparr>)
   \<and> js_gt (Fin 301) (Fin 300)
   \<and> back_to_top_scroll (Fin 301) = [(Class ''back-to-top'', FadeIn ''slow'')]
   \<and> back_to_top_scroll (Fin 300) = [(Class ''back-to-top'', FadeOut ''slow'')]"
  using back_to_top_visibility [of "Fin 301" "[top_element]"]
    back_to_top_visibility [of "Fin 300" "[top_element]"]
  by (simp add: back_to_top_scroll_def run_calls_def jq_def top_element_def js_gt_def)


section \<open>Properties of the click handlers\<close>

text \<open>
  In a jQuery without the effects module the handler throws at \<^verbatim>\<open>.animate\<close>: nothing
  is animated and the default navigation is not prevented.
\<close>

lemma back_to_top_click_without_effects:
  "easing lib = None \<Longrightarrow>
     back_to_top_click lib = Inl (TypeError ''animate'')
     \<and> handler_calls (back_to_top_click lib) = []
     \<and> handler_event (back_to_top_click lib) e = e"
  by (simp add: back_to_top_click_def handler_calls_def handler_event_def)

text \<open>
  C7. With jQuery and its effects module loaded, a click on the back-to-top control
  issues one call: an animation of \<^verbatim>\<open>scrollTop\<close> to 0 on \<^verbatim>\<open>html, body\<close>, lasting
  1500 ms, with the timing function \<^verbatim>\<open>easeInOutExpo\<close> when the easing plugin provides
  it and jQuery's \<^verbatim>\<open>swing\<close> otherwise. The handler returns \<^verbatim>\<open>false\<close>, so the default
  navigation of the anchor is prevented. Whatever the scroll position was, it is 0 once
  the animation has run.
\<close>

theorem back_to_top_click_animates:
  assumes "fn lib \<noteq> None" and "easing lib \<noteq> None"
  shows "back_to_top_click lib =
       Inr ([(Tags [''html'', ''body''],
              Animate [(''scrollTop'', Fin 0)] 1500
                (if easing_has lib ''easeInOutExpo'' then ''easeInOutExpo'' else ''swing''))],
            ReturnFalse)
   \<and> defaultPrevented (handler_event (back_to_top_click lib) e)
   \<and> (\<forall>el \<in> set (run_calls (handler_calls (back_to_top_click lib)) doc).
        matches (Tags [''html'', ''body'']) el \<longrightarrow> scrollTop el = Fin 0)"
  using assms
  by (auto simp: back_to_top_click_def handler_calls_def handler_event_def run_calls_def
      jq_def dispatch_return_def preventDefault_def stopPropagation_def)

theorem back_to_top_click_animates_witness:
  "fn bare_lib \<noteq> None \<and> easing bare_lib \<noteq> None
   \<and> fn full_lib \<noteq> None \<and> easing full_lib \<noteq> None
   \<and> root_element\<lparr>scrollTop := Fin 0\<rparr>
       \<in> set (run_calls (handler_calls (back_to_top_click bare_lib)) [root_element])
   \<and> matches (Tags [''html'', ''body'']) (root_element\<lparr>scrollTop := Fin 0\<rparr>)
   \<and> scrollTop root_element = Fin 800
   \<and> handler_calls (back_to_top_click bare_lib) =
       [(Tags [''html'', ''body''], Animate [(''scrollTop'', Fin 0)] 1500 ''swing'')]
   \<and> handler_calls (back_to_top_click full_lib) =
       [(Tags [''html'', ''body''], Animate [(''scrollTop'', Fin 0)] 1500 ''easeInOutExpo'')]
   \<and> defaultPrevented (handler_event (back_to_top_click bare_lib) fresh_event)"
proof -
  have fb: "fn bare_lib \<noteq> None" and eb: "easing bare_lib \<noteq> None"
    by (simp_all add: bare_lib_def)
  have ff: "fn full_lib \<noteq> None" and ef: "easing full_lib \<noteq> None"
    by (simp_all add: full_lib_def)
  note b = back_to_top_click_animates [OF fb eb, of fresh_event "[root_element]"]
  note f = back_to_top_click_animates [OF ff ef, of fresh_event "[root_element]"]
  have swing: "\<not> easing_has bare_lib ''easeInOutExpo''"
    by (simp add: bare_lib_def easing_has_def)
  have expo: "easing_has full_lib ''easeInOutExpo''"
    by (simp add: full_lib_def easing_has_def)
  have cb: "handler_calls (back_to_top_click bare_lib) =
      [(Tags [''html'', ''body''], Animate [(''scrollTop'', Fin 0)] 1500 ''swing'')]"
    using b swing by (simp add: handler_calls_def)
  have cf: "handler_calls (back_to_top_click full_lib) =
      [(Tags [''html'', ''body''], Animate [(''scrollTop'', Fin 0)] 1500 ''easeInOutExpo'')]"
    using f expo by (simp add: handler_calls_def)
  have run: "root_element\<lparr>scrollTop := Fin 0\<rparr>
      \<in> set (run_calls (handler_calls (back_to_top_click bare_lib)) [root_element])"
    by (simp add: cb run_calls_def jq_def root_element_def)
  have m: "matches (Tags [''html'', ''body'']) (root_element\<lparr>scrollTop := Fin 0\<rparr>)"
    by (simp add: root_element_def)
  have st: "scrollTop root_element = Fin 800" by (simp add: root_element_def)
  from b have dp: "defaultPrevented (handler_event (back_to_top_click bare_lib) fresh_event)"
    by blast
  from fb eb ff ef run m st cb cf dp show ?thesis by blast
qed

text \<open>
  C8. For a click on an anchor whose \<^verbatim>\<open>href\<close> is \<^verbatim>\<open>#\<close>: without the attribute
  \<^verbatim>\<open>data-bs-toggle\<close> the interceptor prevents the default navigation; with the attribute
  it returns at once and leaves the event as it was, default-prevention included.
\<close>

theorem placeholder_link_interceptor:
  assumes "matches (TagAttr ''a'' ''href'' ''#'') el"
  shows "(\<not> hasAttribute el ''data-bs-toggle'' \<longrightarrow>
            defaultPrevented (placeholder_dispatch el e))
       \<and> (hasAttribute el ''data-bs-toggle'' \<longrightarrow> placeholder_dispatch el e = e)"
  using assms
  by (simp add: placeholder_dispatch_def placeholder_click_def dispatch_return_def
      preventDefault_def)

theorem placeholder_link_interceptor_witness:
  "matches (TagAttr ''a'' ''href'' ''#'') plain_anchor
   \<and> \<not> hasAttribute plain_anchor ''data-bs-toggle''
   \<and> defaultPrevented (placeholder_dispatch plain_anchor fresh_event)
   \<and> matches (TagAttr ''a'' ''href'' ''#'') toggle_anchor
   \<and> hasAttribute toggle_anchor ''data-bs-toggle''
   \<and> placeholder_dispatch toggle_anchor fresh_event = fresh_event
   \<and> \<not> defaultPrevented (placeholder_dispatch toggle_anchor fresh_event)"
proof -
  have p: "matches (TagAttr ''a'' ''href'' ''#'') plain_anchor"
    by (simp add: plain_anchor_def)
  have t: "matches (TagAttr ''a'' ''href'' ''#'') toggle_anchor"
    by (simp add: toggle_anchor_def)
  have np: "\<not> hasAttribute plain_anchor ''data-bs-toggle''"
    by (simp add: plain_anchor_def hasAttribute_def)
  have ht: "hasAttribute toggle_anchor ''data-bs-toggle''"
    by (simp add: toggle_anchor_def hasAttribute_def)
  show ?thesis
    using p t np ht placeholder_link_interceptor [OF p, of fresh_event]
      placeholder_link_interceptor [OF t, of fresh_event]
    by (simp add: fresh_event_def)
qed


section \<open>Properties of startup\<close>

text \<open>
  Without their guards the two plugin initialisations throw when the library is
  missing.
\<close>

lemma unguarded_wow_throws:
  "\<not> WOW_defined lib \<Longrightarrow> new_WOW_init lib tr = Inl (ReferenceError ''WOW'')"
  by (simp add: new_WOW_init_def)

lemma unguarded_owl_throws:
  "\<not> fn_has lib ''owlCarousel'' \<Longrightarrow>
     owlCarousel lib sel opts tr = Inl (TypeError ''owlCarousel'')"
  by (simp add: owlCarousel_def)

text \<open>
  C6. With jQuery itself loaded, startup does not throw whichever of the animation and
  carousel libraries are missing; the five listeners (two on scroll, the quantity
  stepper, the back-to-top click, the placeholder-link interceptor) are registered in
  every case; a missing animation library means no \<^verbatim>\<open>new WOW().init()\<close> and a missing
  carousel library means no carousel call.
\<close>

theorem startup_survives_missing_libraries:
  assumes "fn lib \<noteq> None"
  shows "\<not> threw (startup lib)
       \<and> listeners (actions_of (startup lib)) = all_listeners
       \<and> (\<not> WOW_defined lib \<longrightarrow> NewWowInit \<notin> set (actions_of (startup lib)))
       \<and> (\<not> fn_has lib ''owlCarousel'' \<longrightarrow> carousels (actions_of (startup lib)) = [])"
  using assms
  by (cases "WOW_defined lib"; cases "fn_has lib ''owlCarousel''")
     (simp_all add: startup_defs all_listeners_def)

theorem startup_survives_missing_libraries_witness:
  "fn bare_lib \<noteq> None \<and> \<not> WOW_defined bare_lib \<and> \<not> fn_has bare_lib ''owlCarousel''
   \<and> \<not> threw (startup bare_lib)
   \<and> listeners (actions_of (startup bare_lib)) = all_listeners
   \<and> NewWowInit \<notin> set (actions_of (startup bare_lib))
   \<and> carousels (actions_of (startup bare_lib)) = []"
proof -
  have f: "fn bare_lib \<noteq> None" by (simp add: bare_lib_def)
  have w: "\<not> WOW_defined bare_lib" by (simp add: bare_lib_def)
  have c: "\<not> fn_has bare_lib ''owlCarousel''" by (simp add: bare_lib_def fn_has_def)
  show ?thesis
    using f w c startup_survives_missing_libraries [OF f] by simp
qed

text \<open>
  C9. The claim: each of the five carousels is initialised once with its own options,
  and each options object has autoplay, loop, nav arrows and responsive breakpoints at
  0, 576, 768, 992 and 1200. The options of \<^verbatim>\<open>.header-carousel\<close> have no
  \<^verbatim>\<open>responsive\<close> field at all.
\<close>

theorem header_carousel_has_no_breakpoints:
  "(Class ''header-carousel'', header_options)
     \<in> set (carousels (actions_of (startup full_lib)))
   \<and> field ''responsive'' header_options = None
   \<and> breakpoints header_options \<noteq> [''0'', ''576'', ''768'', ''992'', ''1200'']"
  by (simp add: startup_defs full_lib_def fn_has_def header_options_def breakpoints_def)

text \<open>
  C9, as the script has it. With the carousel library loaded, startup makes exactly
  five carousel calls, one for each of \<^verbatim>\<open>.header-carousel\<close>,
  \<^verbatim>\<open>.productList-carousel\<close>, \<^verbatim>\<open>.productImg-carousel\<close>, \<^verbatim>\<open>.single-carousel\<close> and
  \<^verbatim>\<open>.related-carousel\<close>; the five options objects differ from one another; each sets
  \<^verbatim>\<open>autoplay\<close>, \<^verbatim>\<open>loop\<close> and \<^verbatim>\<open>nav\<close> to true and gives \<^verbatim>\<open>navText\<close>; the breakpoints
  0, 576, 768, 992 and 1200 are in the options of \<^verbatim>\<open>.productList-carousel\<close> and
  \<^verbatim>\<open>.related-carousel\<close> only, and the other three have none.
\<close>

theorem carousels_initialised_once:
  assumes "fn_has lib ''owlCarousel''"
  shows "carousels (actions_of (startup lib)) = all_carousels
       \<and> distinct (map fst all_carousels) \<and> distinct (map snd all_carousels)
       \<and> list_all has_autoplay_loop_nav (map snd all_carousels)
       \<and> map (\<lambda>(sel, opts). (sel, breakpoints opts)) all_carousels =
           [(Class ''header-carousel'', []),
            (Class ''productList-carousel'', [''0'', ''576'', ''768'', ''992'', ''1200'']),
            (Class ''productImg-carousel'', []),
            (Class ''single-carousel'', []),
            (Class ''related-carousel'', [''0'', ''576'', ''768'', ''992'', ''1200''])]"
proof -
  from assms have fn: "fn lib \<noteq> None" by (auto simp: fn_has_def split: option.splits)
  have run: "carousels (actions_of (startup lib)) = all_carousels"
    using assms fn by (cases "WOW_defined lib") (simp_all add: startup_defs all_carousels_def)
  have d1: "distinct (map fst all_carousels)" by (simp add: all_carousels_def)
  have d2: "distinct (map snd all_carousels)" by (simp add: all_carousels_def option_defs)
  have f: "list_all has_autoplay_loop_nav (map snd all_carousels)"
    by (simp add: all_carousels_def option_defs has_autoplay_loop_nav_def)
  have b: "map (\<lambda>(sel, opts). (sel, breakpoints opts)) all_carousels =
           [(Class ''header-carousel'', []),
            (Class ''productList-carousel'', [''0'', ''576'', ''768'', ''992'', ''1200'']),
            (Class ''productImg-carousel'', []),
            (Class ''single-carousel'', []),
            (Class ''related-carousel'', [''0'', ''576'', ''768'', ''992'', ''1200''])]"
    by (simp add: all_carousels_def option_defs breakpoints_def)
  from run d1 d2 f b show ?thesis by blast
qed

theorem carousels_initialised_once_witness:
  "fn_has full_lib ''owlCarousel''
   \<and> carousels (actions_of (startup full_lib)) = all_carousels
   \<and> length (carousels (actions_of (startup full_lib))) = 5"
proof -
  have h: "fn_has full_lib ''owlCarousel''" by (simp add: full_lib_def fn_has_def)
  show ?thesis
    using h carousels_initialised_once [OF h] by (simp add: all_carousels_def)
qed

end
